theory Spec2Isabelle
  imports Complex_Main "HOL-Library.Sublist"
begin

section \<open>Values of the host language\<close>

text \<open>
  The client is TypeScript. A field that may be missing, \<^verbatim>\<open>null\<close> or
  \<^verbatim>\<open>undefined\<close> is an \<open>option\<close>; \<open>None\<close> stands for all three, which the code
  never tells apart (it only tests truthiness and uses \<^verbatim>\<open>||\<close>). A string is falsy
  exactly when it is empty, a number exactly when it is zero (payloads are JSON, so a
  number is never NaN).
\<close>

definition truthy_str :: "string option \<Rightarrow> bool" where
  "truthy_str v = (case v of None \<Rightarrow> False | Some s \<Rightarrow> s \<noteq> [])"

text \<open>\<^verbatim>\<open>v || d\<close> for a string field and for a number field.\<close>

definition str_or :: "string option \<Rightarrow> string \<Rightarrow> string" where
  "str_or v d = (case v of None \<Rightarrow> d | Some s \<Rightarrow> if s = [] then d else s)"

definition num_or :: "real option \<Rightarrow> real \<Rightarrow> real" where
  "num_or v d = (case v of None \<Rightarrow> d | Some x \<Rightarrow> if x = 0 then d else x)"

section \<open>Session store (AuthService) and persisted storage\<close>

text \<open>
  \<^verbatim>\<open>localStorage\<close> maps keys to strings. \<^verbatim>\<open>getItem\<close> is application,
  \<^verbatim>\<open>setItem(k, v)\<close> is \<open>m(k \<mapsto> v)\<close>, \<^verbatim>\<open>removeItem(k)\<close> is \<open>m(k := None)\<close>.
\<close>

type_synonym storage = "string \<rightharpoonup> string"

definition tokenKey :: string where "tokenKey = ''access_token''"
definition refreshKey :: string where "refreshKey = ''refresh_token''"
definition userKey :: string where "userKey = ''user_data''"

record user =
  user_id :: int
  username :: string
  email :: string
  first_name :: string
  last_name :: string
  role :: string
  is_staff :: bool
  is_superuser :: bool

record login_response =
  access :: string
  refresh :: string

datatype error = HttpError nat | NoRefreshToken | SyntaxError | TypeError

text \<open>
  The state every component shares: the browser's storage, the three
  \<^verbatim>\<open>BehaviorSubject\<close>s of the one \<^verbatim>\<open>AuthService\<close> instance (their current values),
  and the router's location.
\<close>

record session =
  localStorage :: storage
  isLoggedIn :: bool
  userRole :: string
  currentUser :: "user option"
  route :: string

text \<open>
  What the service calls but the repository does not define: the three backend
  endpoints (a request either fails with an error or completes with a body) and the
  platform's JSON functions on the user object. \<^verbatim>\<open>JSON.parse\<close> may throw, may yield
  a falsy value (\<open>Inr None\<close>) or a user object.
\<close>

record env =
  post_login :: "string \<Rightarrow> string \<Rightarrow> error + login_response"
  get_user :: "string \<Rightarrow> error + user"
  post_refresh :: "string \<Rightarrow> error + string"
  JSON_stringify :: "user \<Rightarrow> string"
  JSON_parse :: "string \<Rightarrow> error + user option"

definition derive_role :: "user \<Rightarrow> string" where
  "derive_role userInfo = (if is_staff userInfo \<or> is_superuser userInfo then ''admin'' else ''farmer'')"

text \<open>
  \<^verbatim>\<open>AuthService.login\<close> (the repository holds two copies of the service, with the
  same code for every method modelled here): the tokens are written to storage as soon
  as the token exchange completes, before the profile request is sent; the error handler
  of the pipe only rethrows. The result pairs the state the attempt ends in with what the
  returned observable delivers.
\<close>

definition AuthService_login :: "env \<Rightarrow> string \<Rightarrow> string \<Rightarrow> session \<Rightarrow> session \<times> (error + user)" where
  "AuthService_login e uname password s =
     (case post_login e uname password of
        Inl err \<Rightarrow> (s, Inl err)
      | Inr tokenResponse \<Rightarrow>
          let accessToken = access tokenResponse;
              refreshToken = refresh tokenResponse;
              s1 = s\<lparr>localStorage := (localStorage s)(tokenKey \<mapsto> accessToken, refreshKey \<mapsto> refreshToken)\<rparr>
          in (case get_user e (''Bearer '' @ accessToken) of
                Inl err \<Rightarrow> (s1, Inl err)
              | Inr userInfo \<Rightarrow>
                  let userData = userInfo\<lparr>role := derive_role userInfo\<rparr>
                  in (s1\<lparr>localStorage := (localStorage s1)(userKey \<mapsto> JSON_stringify e userData),
                         isLoggedIn := True,
                         userRole := role userData,
                         currentUser := Some userData,
                         route := ''/dashboard''\<rparr>,
                      Inr userInfo)))"

text \<open>\<^verbatim>\<open>AuthService.logout\<close>.\<close>

definition AuthService_logout :: "session \<Rightarrow> session" where
  "AuthService_logout s =
     s\<lparr>localStorage := (localStorage s)(tokenKey := None, refreshKey := None, userKey := None),
       isLoggedIn := False,
       userRole := [],
       currentUser := None,
       route := ''/login''\<rparr>"

text \<open>\<^verbatim>\<open>AuthService.refreshToken\<close>: a missing (or empty) refresh token and a failed request both force a logout.\<close>

definition AuthService_refreshToken :: "env \<Rightarrow> session \<Rightarrow> session \<times> (error + string)" where
  "AuthService_refreshToken e s =
     (case localStorage s refreshKey of
        None \<Rightarrow> (AuthService_logout s, Inl NoRefreshToken)
      | Some refreshToken \<Rightarrow>
          if refreshToken = [] then (AuthService_logout s, Inl NoRefreshToken)
          else (case post_refresh e refreshToken of
                  Inl err \<Rightarrow> (AuthService_logout s, Inl err)
                | Inr newAccess \<Rightarrow>
                    (s\<lparr>localStorage := (localStorage s)(tokenKey \<mapsto> newAccess)\<rparr>, Inr newAccess)))"

definition getToken :: "session \<Rightarrow> string option" where
  "getToken s = localStorage s tokenKey"

definition isTokenValid :: "session \<Rightarrow> bool" where
  "isTokenValid s = truthy_str (getToken s)"

definition getCurrentUser :: "env \<Rightarrow> session \<Rightarrow> error + user option" where
  "getCurrentUser e s =
     (case localStorage s userKey of
        None \<Rightarrow> Inr None
      | Some userData \<Rightarrow> if userData = [] then Inr None else JSON_parse e userData)"

text \<open>\<^verbatim>\<open>AuthService.checkTokenValidity\<close>, and the constructor that runs it on the fresh subjects.\<close>

definition checkTokenValidity :: "env \<Rightarrow> session \<Rightarrow> error + session" where
  "checkTokenValidity e s =
     (if isTokenValid s then
        (case getCurrentUser e s of
           Inl err \<Rightarrow> Inl err
         | Inr None \<Rightarrow> Inr s
         | Inr (Some u) \<Rightarrow> Inr (s\<lparr>isLoggedIn := True, userRole := role u, currentUser := Some u\<rparr>))
      else Inr s)"

definition AuthService_constructor :: "env \<Rightarrow> storage \<Rightarrow> string \<Rightarrow> error + session" where
  "AuthService_constructor e st loc =
     checkTokenValidity e
       \<lparr>localStorage = st, isLoggedIn = False, userRole = [], currentUser = None, route = loc\<rparr>"

section \<open>Logout handlers outside the session store\<close>

text \<open>
  \<^verbatim>\<open>ApiService.logout\<close> removes two keys and touches nothing else;
  \<^verbatim>\<open>ApiService.isAuthenticated\<close> looks at the access token only.
\<close>

definition ApiService_logout :: "session \<Rightarrow> session" where
  "ApiService_logout s = s\<lparr>localStorage := (localStorage s)(''access_token'' := None, ''user'' := None)\<rparr>"

definition ApiService_isAuthenticated :: "session \<Rightarrow> bool" where
  "ApiService_isAuthenticated s = truthy_str (localStorage s ''access_token'')"

text \<open>
  \<^verbatim>\<open>AlertsComponent.logout\<close> delegates to the session store;
  \<^verbatim>\<open>DashboardComponent.logout\<close> and \<^verbatim>\<open>PlotDetailsComponent.logout\<close> remove the
  access token themselves and navigate.
\<close>

definition AlertsComponent_logout :: "session \<Rightarrow> session" where
  "AlertsComponent_logout s = (AuthService_logout s)\<lparr>route := ''/login''\<rparr>"

definition DashboardComponent_logout :: "session \<Rightarrow> session" where
  "DashboardComponent_logout s =
     s\<lparr>localStorage := (localStorage s)(''access_token'' := None), route := ''/login''\<rparr>"

definition PlotDetailsComponent_logout :: "session \<Rightarrow> session" where
  "PlotDetailsComponent_logout s =
     s\<lparr>localStorage := (localStorage s)(''access_token'' := None), route := ''/login''\<rparr>"

text \<open>The observable part of the session, and the logged-out state.\<close>

definition observable :: "session \<Rightarrow> bool \<times> string \<times> user option" where
  "observable s = (isLoggedIn s, userRole s, currentUser s)"

definition logged_out :: "session \<Rightarrow> bool" where
  "logged_out s =
     (localStorage s tokenKey = None \<and> localStorage s refreshKey = None \<and> localStorage s userKey = None
      \<and> observable s = (False, [], None))"

definition initial_session :: session where
  "initial_session =
     \<lparr>localStorage = Map.empty, isLoggedIn = False, userRole = [], currentUser = None, route = ''/login''\<rparr>"

text \<open>
  The error handler of \<^verbatim>\<open>DashboardComponent.loadDashboardData\<close>: the only place where a
  view inspects the status of a failed call.
\<close>

definition status :: "error \<Rightarrow> nat option" where
  "status err = (case err of HttpError n \<Rightarrow> Some n | _ \<Rightarrow> None)"

definition DashboardComponent_loadDashboardData_error :: "error \<Rightarrow> session \<Rightarrow> session" where
  "DashboardComponent_loadDashboardData_error err s =
     (if status err = Some 401 then DashboardComponent_logout s else s)"

text \<open>The invariant of the data model: a session that shows as logged in holds a non-empty access token.\<close>

definition session_invariant :: "session \<Rightarrow> bool" where
  "session_invariant s = (if isLoggedIn s then truthy_str (localStorage s tokenKey) else True)"

text \<open>
  A backend and a platform for the examples: the token exchange always succeeds, the
  profile request is answered by \<open>profile\<close>.
\<close>

definition demo_user :: user where
  "demo_user =
     \<lparr>user_id = 7, username = ''amina'', email = ''amina@farm.tn'', first_name = ''Amina'',
      last_name = ''Ben Salah'', role = [], is_staff = False, is_superuser = False\<rparr>"

definition demo_env :: "(string \<Rightarrow> error + user) \<Rightarrow> env" where
  "demo_env profile =
     \<lparr>post_login = (\<lambda>u p. Inr \<lparr>access = ''a1'', refresh = ''r1''\<rparr>),
      get_user = profile,
      post_refresh = (\<lambda>r. Inl (HttpError 401)),
      JSON_stringify = (\<lambda>u. ''{user}''),
      JSON_parse = (\<lambda>d. Inr (Some demo_user))\<rparr>"

text \<open>The session after a login that went through.\<close>

definition demo_logged_in :: session where
  "demo_logged_in = fst (AuthService_login (demo_env (\<lambda>h. Inr demo_user)) ''amina'' ''secret'' initial_session)"

section \<open>Recommendation objects and the normalizers\<close>

text \<open>
  A recommendation, as the backend sends it and as the views attach it to an anomaly, is
  an object whose keys may each be missing. The entries of the fallback tables are objects
  with the keys \<^verbatim>\<open>action\<close>, \<^verbatim>\<open>explanation\<close> and \<^verbatim>\<open>confidence\<close>.
\<close>

record rec_object =
  recommended_action :: "string option"
  recommendation :: "string option"
  action :: "string option"
  explanation_text :: "string option"
  explanation :: "string option"
  confidence :: "real option"
  timestamp :: "string option"
  source :: "string option"

definition empty_object :: rec_object where
  "empty_object =
     \<lparr>recommended_action = None, recommendation = None, action = None, explanation_text = None,
      explanation = None, confidence = None, timestamp = None, source = None\<rparr>"

text \<open>\<^verbatim>\<open>response && response.f\<close>: the field \<open>f\<close> of a response that may itself be null.\<close>

definition field :: "(rec_object \<Rightarrow> 'a option) \<Rightarrow> rec_object option \<Rightarrow> 'a option" where
  "field f response = (case response of None \<Rightarrow> None | Some r \<Rightarrow> f r)"

text \<open>
  \<^verbatim>\<open>AlertsComponent.formatRecommendation\<close>; \<open>now\<close> is what
  \<^verbatim>\<open>new Date().toISOString()\<close> returns at the call.
\<close>

definition AlertsComponent_formatRecommendation :: "string \<Rightarrow> rec_object option \<Rightarrow> rec_object" where
  "AlertsComponent_formatRecommendation now response =
     (if truthy_str (field recommended_action response) then
        empty_object\<lparr>recommended_action := field recommended_action response,
          explanation_text := Some (str_or (field explanation_text response) ''AI-generated recommendation''),
          confidence := Some (num_or (field confidence response) 0.8),
          timestamp := Some now\<rparr>
      else if truthy_str (field recommendation response) then
        empty_object\<lparr>recommended_action := field recommendation response,
          explanation_text := Some (str_or (field explanation response) ''Generated by AI agent''),
          confidence := Some (num_or (field confidence response) 0.7),
          timestamp := Some now\<rparr>
      else if truthy_str (field action response) then
        empty_object\<lparr>recommended_action := field action response,
          explanation_text := Some (str_or (field explanation response) ''AI analysis completed''),
          confidence := Some (num_or (field confidence response) 0.75),
          timestamp := Some now\<rparr>
      else
        empty_object\<lparr>recommended_action := Some ''Monitor anomaly and adjust farming practices'',
          explanation_text := Some ''Temperature/moisture imbalance detected'',
          confidence := Some 0.75,
          timestamp := Some now\<rparr>)"

text \<open>The normalizer inlined in the success handler of \<^verbatim>\<open>PlotDetailsComponent.generateRecommendation\<close>.\<close>

definition PlotDetailsComponent_normalize :: "rec_object option \<Rightarrow> rec_object" where
  "PlotDetailsComponent_normalize response =
     (if truthy_str (field recommended_action response) then
        empty_object\<lparr>recommended_action := field recommended_action response,
          explanation_text := Some (str_or (field explanation_text response) ''AI-generated recommendation''),
          confidence := Some (num_or (field confidence response) 0.8)\<rparr>
      else if truthy_str (field recommendation response) then
        empty_object\<lparr>recommended_action := field recommendation response,
          explanation_text := Some ''Generated by AI agent'',
          confidence := Some 0.7\<rparr>
      else
        empty_object\<lparr>recommended_action := Some ''Monitor anomaly and adjust irrigation'',
          explanation_text := Some ''Temperature/moisture imbalance detected'',
          confidence := Some 0.75\<rparr>)"

section \<open>Anomalies and the local fallback generators\<close>

record 'r anomaly =
  anomaly_id :: int
  anomaly_type :: "string option"
  severity :: "string option"
  loadingRecommendation :: bool
  agent_recommendation :: "'r option"

text \<open>
  \<^verbatim>\<open>String.prototype.toLowerCase\<close> on the ASCII letters (the type strings the rule table
  looks for are ASCII; other characters are left as they are), and
  \<^verbatim>\<open>String.prototype.includes\<close>.
\<close>

definition lower_char :: "char \<Rightarrow> char" where
  "lower_char c =
     (let n = (of_char c :: nat) in if 65 \<le> n \<and> n \<le> 90 then char_of (n + 32) else c)"

definition toLowerCase :: "string \<Rightarrow> string" where
  "toLowerCase s = map lower_char s"

primrec String_includes :: "string \<Rightarrow> string \<Rightarrow> bool" where
  "String_includes [] sub = (sub = [])"
| "String_includes (c # cs) sub = (prefix sub (c # cs) \<or> String_includes cs sub)"

definition table_entry :: "string \<Rightarrow> string \<Rightarrow> real \<Rightarrow> rec_object" where
  "table_entry a ex c = empty_object\<lparr>action := Some a, explanation := Some ex, confidence := Some c\<rparr>"

text \<open>The ordered rule table of \<^verbatim>\<open>AlertsComponent.getMockRecommendation\<close>: each condition, evaluated on the lower-cased type, with its entry.\<close>

definition mockRecommendations :: "string \<Rightarrow> (bool \<times> rec_object) list" where
  "mockRecommendations atype =
     [(String_includes atype ''moisture'' \<and> String_includes atype ''low'',
       table_entry ''Increase irrigation by 20-30% for the next 48 hours''
         ''Soil moisture below optimal range. Plants showing early signs of water stress.'' 0.85),
      (String_includes atype ''moisture'' \<and> String_includes atype ''high'',
       table_entry ''Stop irrigation immediately and improve drainage systems''
         ''Excess soil moisture detected. Risk of root rot and fungal diseases.'' 0.82),
      (String_includes atype ''temperature'' \<and> String_includes atype ''high'',
       table_entry ''Deploy shade nets and increase irrigation frequency''
         ''High temperature stress detected. Crops at risk of heat damage.'' 0.8),
      (String_includes atype ''temperature'' \<and> String_includes atype ''low'',
       table_entry ''Activate frost protection and reduce irrigation''
         ''Low temperature alert. Protect sensitive crops from frost damage.'' 0.78),
      (String_includes atype ''humidity'' \<and> String_includes atype ''high'',
       table_entry ''Improve ventilation and monitor for fungal diseases''
         ''High humidity promotes fungal growth and reduces transpiration.'' 0.75)]"

text \<open>
  The severity-keyed table is an object literal, read with \<^verbatim>\<open>defaultActions[severity]\<close>.
  Property access on an object also finds the members every object inherits from
  \<^verbatim>\<open>Object.prototype\<close>; such a member is truthy and has none of the keys of an entry.
\<close>

definition default_high :: rec_object where
  "default_high = table_entry ''Immediate field inspection required. Consider emergency measures.''
     ''Critical anomaly detected. High impact on crop health.'' 0.9"

definition default_medium :: rec_object where
  "default_medium = table_entry ''Schedule inspection within 24 hours and adjust practices.''
     ''Moderate risk anomaly. Monitor closely.'' 0.75"

definition default_low :: rec_object where
  "default_low = table_entry ''Monitor trend and adjust during next regular maintenance.''
     ''Minor anomaly. Low immediate risk.'' 0.65"

definition Object_prototype_keys :: "string list" where
  "Object_prototype_keys =
     [''constructor'', ''__defineGetter__'', ''__defineSetter__'', ''hasOwnProperty'',
      ''__lookupGetter__'', ''__lookupSetter__'', ''isPrototypeOf'', ''propertyIsEnumerable'',
      ''toString'', ''valueOf'', ''__proto__'', ''toLocaleString'']"

definition defaultActions :: "string \<Rightarrow> rec_object option" where
  "defaultActions k =
     (if k = ''high'' then Some default_high
      else if k = ''medium'' then Some default_medium
      else if k = ''low'' then Some default_low
      else if k \<in> set Object_prototype_keys then Some empty_object
      else None)"

definition mock_result :: "string \<Rightarrow> rec_object \<Rightarrow> rec_object" where
  "mock_result now entry =
     empty_object\<lparr>recommended_action := action entry,
       explanation_text := explanation entry,
       confidence := confidence entry,
       timestamp := Some now,
       source := Some ''ai_agent_mock''\<rparr>"

text \<open>
  \<^verbatim>\<open>AlertsComponent.getMockRecommendation\<close>. The lower-cased type is
  \<^verbatim>\<open>anomaly.anomaly_type?.toLowerCase() || ''\<close>, the severity key is
  \<^verbatim>\<open>anomaly.severity || 'medium'\<close>; \<^verbatim>\<open>find\<close> returns the first rule whose
  condition holds.
\<close>

definition lowered_type :: "'r anomaly \<Rightarrow> string" where
  "lowered_type anomaly = (case anomaly_type anomaly of None \<Rightarrow> [] | Some t \<Rightarrow> toLowerCase t)"

definition AlertsComponent_getMockRecommendation :: "string \<Rightarrow> 'r anomaly \<Rightarrow> rec_object" where
  "AlertsComponent_getMockRecommendation now anomaly =
     (let atype = lowered_type anomaly;
          sev = str_or (severity anomaly) ''medium''
      in case List.find fst (mockRecommendations atype) of
           Some matchedRec \<Rightarrow> mock_result now (snd matchedRec)
         | None \<Rightarrow>
             mock_result now
               (case defaultActions sev of Some defaultRec \<Rightarrow> defaultRec | None \<Rightarrow> default_medium))"

section \<open>The views' recommendation workflow\<close>

text \<open>
  \<^verbatim>\<open>AlertsComponent.generateRecommendation\<close> on an anomaly of the list (an object,
  never null), given how the backend call ends; a call is made only when the guard lets
  it through. The failure handler attaches the fallback generator's result.
\<close>

definition AlertsComponent_generateRecommendation ::
  "string \<Rightarrow> error + rec_object option \<Rightarrow> rec_object anomaly \<Rightarrow> int set \<Rightarrow> rec_object anomaly \<times> int set" where
  "AlertsComponent_generateRecommendation now result anomaly processingAnomalies =
     (if loadingRecommendation anomaly \<or> anomaly_id anomaly \<in> processingAnomalies
      then (anomaly, processingAnomalies)
      else (case result of
              Inr response \<Rightarrow>
                (anomaly\<lparr>agent_recommendation := Some (AlertsComponent_formatRecommendation now response),
                         loadingRecommendation := False\<rparr>,
                 processingAnomalies - {anomaly_id anomaly})
            | Inl err \<Rightarrow>
                (anomaly\<lparr>agent_recommendation := Some (AlertsComponent_getMockRecommendation now anomaly),
                         loadingRecommendation := False\<rparr>,
                 processingAnomalies - {anomaly_id anomaly})))"

text \<open>\<^verbatim>\<open>Array.prototype.findIndex\<close>: the first position whose element passes, if any.\<close>

primrec findIndex :: "('a \<Rightarrow> bool) \<Rightarrow> 'a list \<Rightarrow> nat option" where
  "findIndex P [] = None"
| "findIndex P (x # xs) = (if P x then Some 0 else map_option Suc (findIndex P xs))"

text \<open>
  \<^verbatim>\<open>DashboardComponent.generateRecommendation\<close>: the dashboard keeps the recommendation
  as a string. Its failure handler logs and opens an alert box; \<open>alerts_shown\<close> records
  the boxes opened.
\<close>

record dashboard_view =
  recentAnomalies :: "string anomaly list"
  alerts_shown :: "string list"

definition DashboardComponent_generateRecommendation ::
  "error + rec_object \<Rightarrow> int \<Rightarrow> dashboard_view \<Rightarrow> dashboard_view" where
  "DashboardComponent_generateRecommendation result anomalyId v =
     (case result of
        Inr response \<Rightarrow>
          (case findIndex (\<lambda>a. anomaly_id a = anomalyId) (recentAnomalies v) of
             None \<Rightarrow> v
           | Some i \<Rightarrow>
               v\<lparr>recentAnomalies := (recentAnomalies v)
                    [i := (recentAnomalies v ! i)\<lparr>agent_recommendation := recommended_action response\<rparr>]\<rparr>)
      | Inl err \<Rightarrow>
          v\<lparr>alerts_shown := alerts_shown v @ [''Could not generate recommendation. Please try again.'']\<rparr>)"

text \<open>
  \<^verbatim>\<open>PlotDetailsComponent.generateRecommendation\<close>: the failure handler picks one of four
  fixed entries with \<^verbatim>\<open>Math.floor(Math.random() * mockRecommendations.length)\<close>;
  \<open>rnd\<close> is the value \<^verbatim>\<open>Math.random()\<close> returns, a number from 0 up to but not
  including 1. An index outside the table would make the handler throw.
\<close>

record plot_view =
  anomalies :: "rec_object anomaly list"
  selectedAnomaly :: "rec_object anomaly option"

definition plot_mockRecommendations :: "rec_object list" where
  "plot_mockRecommendations =
     [table_entry ''Increase irrigation by 20% for 2 days'' ''Low soil moisture detected'' 0.8,
      table_entry ''Reduce irrigation and check drainage'' ''Excess soil moisture'' 0.75,
      table_entry ''Install temporary shade'' ''High temperature stress'' 0.7,
      table_entry ''Monitor for frost protection'' ''Low temperature alert'' 0.65]"

definition plot_mock_result :: "rec_object \<Rightarrow> rec_object" where
  "plot_mock_result mockRec =
     empty_object\<lparr>recommended_action := action mockRec,
       explanation_text := explanation mockRec,
       confidence := confidence mockRec\<rparr>"

definition PlotDetailsComponent_generateRecommendation ::
  "real \<Rightarrow> error + rec_object option \<Rightarrow> plot_view \<Rightarrow> error + plot_view" where
  "PlotDetailsComponent_generateRecommendation rnd result v =
     (case selectedAnomaly v of
        None \<Rightarrow> Inr v
      | Some sel \<Rightarrow>
          if loadingRecommendation sel then Inr v
          else (case result of
                  Inr response \<Rightarrow>
                    let rcm = PlotDetailsComponent_normalize response;
                        sel' = sel\<lparr>agent_recommendation := Some rcm, loadingRecommendation := False\<rparr>
                    in Inr (v\<lparr>selectedAnomaly := Some sel',
                             anomalies :=
                               (case findIndex (\<lambda>a. anomaly_id a = anomaly_id sel) (anomalies v) of
                                  None \<Rightarrow> anomalies v
                                | Some i \<Rightarrow> (anomalies v)
                                    [i := (anomalies v ! i)\<lparr>agent_recommendation := Some rcm\<rparr>])\<rparr>)
                | Inl err \<Rightarrow>
                    let i = \<lfloor>rnd * real (length plot_mockRecommendations)\<rfloor> in
                    if 0 \<le> i \<and> i < int (length plot_mockRecommendations) then
                      let mockRec = plot_mockRecommendations ! nat i
                      in Inr (v\<lparr>selectedAnomaly := Some (sel
                            \<lparr>agent_recommendation := Some (plot_mock_result mockRec),
                             loadingRecommendation := False\<rparr>)\<rparr>)
                    else Inl TypeError))"

section \<open>Countdown scheduler of the alerts view\<close>

text \<open>
  The part of \<^verbatim>\<open>AlertsComponent\<close> the timer touches. \<^verbatim>\<open>loadAnomalies\<close> marks the view
  as loading, clears the message and sends the request; \<open>loadAnomalies_calls\<close> counts
  how often it ran. The callback of \<^verbatim>\<open>startAutoRefresh\<close> first decrements the countdown
  and then, at zero or below, reloads and resets it.
\<close>

record alerts_view =
  refreshCountdown :: int
  isLoading :: bool
  errorMessage :: string
  loadAnomalies_calls :: nat

definition AlertsComponent_loadAnomalies :: "alerts_view \<Rightarrow> alerts_view" where
  "AlertsComponent_loadAnomalies v =
     v\<lparr>isLoading := True, errorMessage := [], loadAnomalies_calls := Suc (loadAnomalies_calls v)\<rparr>"

definition decrement :: "alerts_view \<Rightarrow> alerts_view" where
  "decrement v = v\<lparr>refreshCountdown := refreshCountdown v - 1\<rparr>"

definition reload_at_zero :: "alerts_view \<Rightarrow> alerts_view" where
  "reload_at_zero v =
     (if refreshCountdown v \<le> 0 then (AlertsComponent_loadAnomalies v)\<lparr>refreshCountdown := 30\<rparr> else v)"

definition tick :: "alerts_view \<Rightarrow> alerts_view" where
  "tick v = reload_at_zero (decrement v)"

text \<open>The states the view passes through between ticks, once the countdown stands at 30.\<close>

inductive reachable :: "alerts_view \<Rightarrow> alerts_view \<Rightarrow> bool" for v where
  start: "reachable v (v\<lparr>refreshCountdown := 30\<rparr>)"
| step: "reachable v w \<Longrightarrow> reachable v (tick w)"

text \<open>
  The values of \<^verbatim>\<open>refreshCountdown\<close> a reader of the view sees: the value now and
  the value after each of the next \<open>n\<close> ticks.
\<close>

primrec countdown_trace :: "nat \<Rightarrow> alerts_view \<Rightarrow> int list" where
  "countdown_trace 0 v = [refreshCountdown v]"
| "countdown_trace (Suc n) v = refreshCountdown v # countdown_trace n (tick v)"

text \<open>The view as constructed (\<^verbatim>\<open>refreshCountdown = 30\<close>, \<^verbatim>\<open>isLoading = true\<close>), before any reload.\<close>

definition alerts_initial :: alerts_view where
  "alerts_initial = \<lparr>refreshCountdown = 30, isLoading = True, errorMessage = [], loadAnomalies_calls = 0\<rparr>"

section \<open>API gateway client\<close>

text \<open>
  \<^verbatim>\<open>ApiService.getHeaders\<close> reads the token from storage at each call. The headers are
  the pairs of the object literal, in its order.
\<close>

definition ApiService_getHeaders :: "storage \<Rightarrow> (string \<times> string) list" where
  "ApiService_getHeaders st =
     (let token = st ''access_token'' in
      [(''Content-Type'', ''application/json''),
       (''Authorization'',
          case token of None \<Rightarrow> [] | Some t \<Rightarrow> if t = [] then [] else ''Bearer '' @ t)])"

text \<open>
  The authenticated methods of \<^verbatim>\<open>ApiService\<close> (\<^verbatim>\<open>login\<close> and \<^verbatim>\<open>register\<close> send no
  headers of their own). A request is its verb, its URL, its body and its headers; an
  identifier is written into the URL in decimal.
\<close>

datatype http_verb = GET | POST | PUT | DELETE

datatype request_body = No_body | Empty_object | Force_regenerate | Data string

record http_request =
  verb :: http_verb
  url :: string
  body :: request_body
  headers :: "(string \<times> string) list"

datatype api_call =
    GetDashboardStats
  | GetFarms | GetFarmById nat | CreateFarm string | UpdateFarm nat string | DeleteFarm nat
  | GetPlots | GetPlotById nat | GetPlotsByFarm nat | CreatePlot string | UpdatePlot nat string
  | DeletePlot nat
  | GetSensorReadings | GetSensorReadingsByPlot nat | CreateSensorReading string
  | GetAnomalies | GetAnomaliesByPlot nat
  | GenerateRecommendation nat | RegenerateRecommendation nat | ResolveAnomaly nat
  | GetRecommendationsByAnomaly nat | ApplyRecommendation nat

fun decimal :: "nat \<Rightarrow> string" where
  "decimal n = (if n < 10 then [char_of (48 + n)] else decimal (n div 10) @ [char_of (48 + n mod 10)])"

definition apiUrl :: string where
  "apiUrl = ''http://localhost:8000/api''"

definition request :: "http_verb \<Rightarrow> string \<Rightarrow> request_body \<Rightarrow> storage \<Rightarrow> http_request" where
  "request v path b st = \<lparr>verb = v, url = apiUrl @ path, body = b, headers = ApiService_getHeaders st\<rparr>"

fun ApiService_call :: "api_call \<Rightarrow> storage \<Rightarrow> http_request" where
  "ApiService_call GetDashboardStats = request GET ''/dashboard/stats/'' No_body"
| "ApiService_call GetFarms = request GET ''/farms/'' No_body"
| "ApiService_call (GetFarmById i) = request GET (''/farms/'' @ decimal i @ ''/'') No_body"
| "ApiService_call (CreateFarm d) = request POST ''/farms/'' (Data d)"
| "ApiService_call (UpdateFarm i d) = request PUT (''/farms/'' @ decimal i @ ''/'') (Data d)"
| "ApiService_call (DeleteFarm i) = request DELETE (''/farms/'' @ decimal i @ ''/'') No_body"
| "ApiService_call GetPlots = request GET ''/plots/'' No_body"
| "ApiService_call (GetPlotById i) = request GET (''/plots/'' @ decimal i @ ''/'') No_body"
| "ApiService_call (GetPlotsByFarm i) = request GET (''/plots/?farm='' @ decimal i) No_body"
| "ApiService_call (CreatePlot d) = request POST ''/plots/'' (Data d)"
| "ApiService_call (UpdatePlot i d) = request PUT (''/plots/'' @ decimal i @ ''/'') (Data d)"
| "ApiService_call (DeletePlot i) = request DELETE (''/plots/'' @ decimal i @ ''/'') No_body"
| "ApiService_call GetSensorReadings = request GET ''/sensor-readings/'' No_body"
| "ApiService_call (GetSensorReadingsByPlot i) =
     request GET (''/sensor-readings/?field_plot='' @ decimal i) No_body"
| "ApiService_call (CreateSensorReading d) = request POST ''/sensor-readings/'' (Data d)"
| "ApiService_call GetAnomalies = request GET ''/anomalies/'' No_body"
| "ApiService_call (GetAnomaliesByPlot i) = request GET (''/anomalies/?field_plot='' @ decimal i) No_body"
| "ApiService_call (GenerateRecommendation i) =
     request POST (''/anomalies/'' @ decimal i @ ''/recommend/'') Empty_object"
| "ApiService_call (RegenerateRecommendation i) =
     request POST (''/anomalies/'' @ decimal i @ ''/recommend/'') Force_regenerate"
| "ApiService_call (ResolveAnomaly i) = request POST (''/anomalies/'' @ decimal i @ ''/resolve/'') Empty_object"
| "ApiService_call (GetRecommendationsByAnomaly i) =
     request GET (''/recommendations/?anomaly='' @ decimal i) No_body"
| "ApiService_call (ApplyRecommendation i) =
     request POST (''/recommendations/'' @ decimal i @ ''/apply/'') Empty_object"

section \<open>Example inputs\<close>

definition demo_now :: string where
  "demo_now = ''2025-12-01T08:00:00.000Z''"

definition later_now :: string where
  "later_now = ''2025-12-01T09:30:00.000Z''"

definition demo_anomaly :: "string \<Rightarrow> string option \<Rightarrow> rec_object anomaly" where
  "demo_anomaly t sev =
     \<lparr>anomaly_id = 1, anomaly_type = Some t, severity = sev, loadingRecommendation = False,
      agent_recommendation = None\<rparr>"

definition demo_dashboard :: dashboard_view where
  "demo_dashboard =
     \<lparr>recentAnomalies =
        [\<lparr>anomaly_id = 1, anomaly_type = Some ''low_soil_moisture'', severity = Some ''high'',
          loadingRecommendation = False, agent_recommendation = None\<rparr>],
      alerts_shown = []\<rparr>"

definition demo_plot_view :: plot_view where
  "demo_plot_view =
     \<lparr>anomalies = [demo_anomaly ''low_soil_moisture'' (Some ''high'')],
      selectedAnomaly = Some (demo_anomaly ''low_soil_moisture'' (Some ''high''))\<rparr>"

definition payload_both :: rec_object where
  "payload_both = empty_object\<lparr>recommended_action := Some ''Irrigate'', recommendation := Some ''Wait''\<rparr>"

definition payload_recommendation :: rec_object where
  "payload_recommendation = empty_object\<lparr>recommendation := Some ''x'', explanation := Some ''because''\<rparr>"

definition payload_action :: rec_object where
  "payload_action = empty_object\<lparr>action := Some ''Ventilate''\<rparr>"

definition payload_empty_first :: rec_object where
  "payload_empty_first = empty_object\<lparr>recommended_action := Some [], recommendation := Some ''Wait''\<rparr>"


section \<open>Properties of the session store\<close>

lemma AuthService_logout_logged_out: "logged_out (AuthService_logout s)"
  by (simp add: logged_out_def AuthService_logout_def observable_def tokenKey_def refreshKey_def userKey_def)

text \<open>
  C9. \<^verbatim>\<open>logout()\<close> is idempotent: a second call changes nothing (storage, login flag,
  role, current user, and the route as well), for the session store's logout and for
  the gateway client's; on a session that is already logged out the first call leaves
  storage and the observable state as they are.
\<close>

theorem logout_idempotent:
  "AuthService_logout (AuthService_logout s) = AuthService_logout s
   \<and> ApiService_logout (ApiService_logout s) = ApiService_logout s
   \<and> logged_out (AuthService_logout s)
   \<and> (logged_out s \<longrightarrow>
        localStorage (AuthService_logout s) = localStorage s
        \<and> observable (AuthService_logout s) = observable s)"
proof -
  have twice: "AuthService_logout (AuthService_logout s) = AuthService_logout s"
    by (simp add: AuthService_logout_def)
  have api: "ApiService_logout (ApiService_logout s) = ApiService_logout s"
    by (simp add: ApiService_logout_def)
  have noop: "localStorage (AuthService_logout s) = localStorage s
      \<and> observable (AuthService_logout s) = observable s" if "logged_out s"
    using that by (auto simp: logged_out_def AuthService_logout_def observable_def)
  from twice api noop AuthService_logout_logged_out show ?thesis by blast
qed

theorem logout_idempotent_witness:
  "logged_out initial_session
   \<and> localStorage (AuthService_logout initial_session) = localStorage initial_session
   \<and> observable (AuthService_logout initial_session) = observable initial_session"
proof -
  have h: "logged_out initial_session"
    by (simp add: logged_out_def initial_session_def observable_def)
  with logout_idempotent [of initial_session] show ?thesis by blast
qed

lemma derive_role_admin: "derive_role u = ''admin'' \<longleftrightarrow> is_staff u \<or> is_superuser u"
  and derive_role_farmer: "derive_role u = ''farmer'' \<longleftrightarrow> \<not> is_staff u \<and> \<not> is_superuser u"
  by (simp_all add: derive_role_def)

lemma demo_logged_in_eq:
  "demo_logged_in =
     \<lparr>localStorage = [tokenKey \<mapsto> ''a1'', refreshKey \<mapsto> ''r1'', userKey \<mapsto> ''{user}''],
      isLoggedIn = True, userRole = ''farmer'',
      currentUser = Some (demo_user\<lparr>role := ''farmer''\<rparr>), route = ''/dashboard''\<rparr>"
  by (simp add: demo_logged_in_def AuthService_login_def demo_env_def initial_session_def
      derive_role_def demo_user_def)

text \<open>
  C1. When the token exchange succeeds and the profile request fails, the failure
  reaches the caller and the observable state and the route stay as they were (a session
  that was logged out stays logged out); storage is the old storage with the two new
  tokens written: nothing is rolled back.
\<close>

theorem login_profile_failure:
  assumes "post_login e uname password = Inr tr"
    and "get_user e (''Bearer '' @ access tr) = Inl err"
  shows "snd (AuthService_login e uname password s) = Inl err
    \<and> observable (fst (AuthService_login e uname password s)) = observable s
    \<and> route (fst (AuthService_login e uname password s)) = route s
    \<and> localStorage (fst (AuthService_login e uname password s))
        = (localStorage s)(tokenKey \<mapsto> access tr, refreshKey \<mapsto> refresh tr)"
  using assms by (simp add: AuthService_login_def observable_def)

theorem login_profile_failure_witness:
  "post_login (demo_env (\<lambda>h. Inl (HttpError 500))) ''amina'' ''secret'' = Inr \<lparr>access = ''a1'', refresh = ''r1''\<rparr>
   \<and> get_user (demo_env (\<lambda>h. Inl (HttpError 500))) (''Bearer '' @ access \<lparr>access = ''a1'', refresh = ''r1''\<rparr>)
       = Inl (HttpError 500)
   \<and> snd (AuthService_login (demo_env (\<lambda>h. Inl (HttpError 500))) ''amina'' ''secret'' initial_session)
       = Inl (HttpError 500)
   \<and> observable (fst (AuthService_login (demo_env (\<lambda>h. Inl (HttpError 500))) ''amina'' ''secret'' initial_session))
       = (False, [], None)
   \<and> localStorage (fst (AuthService_login (demo_env (\<lambda>h. Inl (HttpError 500))) ''amina'' ''secret'' initial_session))
       = [tokenKey \<mapsto> ''a1'', refreshKey \<mapsto> ''r1'']"
proof -
  have h1: "post_login (demo_env (\<lambda>h. Inl (HttpError 500))) ''amina'' ''secret''
      = Inr \<lparr>access = ''a1'', refresh = ''r1''\<rparr>"
    by (simp add: demo_env_def)
  have h2: "get_user (demo_env (\<lambda>h. Inl (HttpError 500)))
      (''Bearer '' @ access \<lparr>access = ''a1'', refresh = ''r1''\<rparr>) = Inl (HttpError 500)"
    by (simp add: demo_env_def)
  from login_profile_failure [OF h1 h2, of initial_session] h1 h2 show ?thesis
    by (simp add: initial_session_def observable_def)
qed

text \<open>
  No rollback: after a successful token exchange and a failed profile request on a
  fresh session, both tokens are in storage and the session is not in the logged-out
  state, although the specification asks for it.
\<close>

theorem no_rollback_after_profile_failure:
  "snd (AuthService_login (demo_env (\<lambda>h. Inl (HttpError 500))) ''amina'' ''secret'' initial_session)
       = Inl (HttpError 500)
   \<and> localStorage (fst (AuthService_login (demo_env (\<lambda>h. Inl (HttpError 500))) ''amina'' ''secret'' initial_session))
        tokenKey = Some ''a1''
   \<and> localStorage (fst (AuthService_login (demo_env (\<lambda>h. Inl (HttpError 500))) ''amina'' ''secret'' initial_session))
        refreshKey = Some ''r1''
   \<and> \<not> logged_out (fst (AuthService_login (demo_env (\<lambda>h. Inl (HttpError 500))) ''amina'' ''secret'' initial_session))"
  by (simp add: AuthService_login_def demo_env_def initial_session_def logged_out_def
      tokenKey_def refreshKey_def)

text \<open>
  C2. A 401 on the dashboard's load runs \<^verbatim>\<open>DashboardComponent.logout\<close>, which removes the
  access token only: on the session a successful login leaves, the refresh token and the
  stored user survive and the login flag stays true (only the gateway client's own
  check turns false). The alerts view's logout, on the same session, clears the refresh
  token and the flag.
\<close>

theorem dashboard_401_keeps_session:
  "localStorage (DashboardComponent_loadDashboardData_error (HttpError 401) demo_logged_in) tokenKey = None
   \<and> localStorage (DashboardComponent_loadDashboardData_error (HttpError 401) demo_logged_in) refreshKey = Some ''r1''
   \<and> localStorage (DashboardComponent_loadDashboardData_error (HttpError 401) demo_logged_in) userKey = Some ''{user}''
   \<and> isLoggedIn (DashboardComponent_loadDashboardData_error (HttpError 401) demo_logged_in) = True
   \<and> ApiService_isAuthenticated (DashboardComponent_loadDashboardData_error (HttpError 401) demo_logged_in) = False
   \<and> isLoggedIn (AlertsComponent_logout demo_logged_in) = False
   \<and> localStorage (AlertsComponent_logout demo_logged_in) refreshKey = None"
  by (simp add: demo_logged_in_eq DashboardComponent_loadDashboardData_error_def status_def
      DashboardComponent_logout_def AlertsComponent_logout_def AuthService_logout_def
      ApiService_isAuthenticated_def truthy_str_def tokenKey_def refreshKey_def userKey_def)

text \<open>
  C3. The invariant holds after a login, and the logout handlers of the dashboard and
  of the plot-details view break it: the flag stays true and the access token is gone.
\<close>

theorem view_logout_breaks_invariant:
  "session_invariant demo_logged_in
   \<and> isLoggedIn (DashboardComponent_logout demo_logged_in) = True
   \<and> localStorage (DashboardComponent_logout demo_logged_in) tokenKey = None
   \<and> session_invariant (DashboardComponent_logout demo_logged_in) = False
   \<and> session_invariant (PlotDetailsComponent_logout demo_logged_in) = False"
  by (simp add: demo_logged_in_eq session_invariant_def truthy_str_def
      DashboardComponent_logout_def PlotDetailsComponent_logout_def tokenKey_def refreshKey_def userKey_def)

text \<open>The operations of the session store itself, and the alerts view's logout, keep the invariant.\<close>

lemma constructor_invariant:
  "AuthService_constructor e st loc = Inr s \<Longrightarrow> session_invariant s"
  by (auto simp: AuthService_constructor_def checkTokenValidity_def isTokenValid_def getToken_def
      session_invariant_def split: if_splits sum.splits option.splits)

lemma login_invariant:
  assumes "session_invariant s"
    and "\<And>tr. post_login e uname password = Inr tr \<Longrightarrow> access tr \<noteq> []"
  shows "session_invariant (fst (AuthService_login e uname password s))"
  using assms
  by (auto simp: AuthService_login_def session_invariant_def truthy_str_def Let_def
      tokenKey_def refreshKey_def userKey_def split: sum.splits)

lemma refreshToken_invariant:
  assumes "session_invariant s"
    and "\<And>r a. post_refresh e r = Inr a \<Longrightarrow> a \<noteq> []"
  shows "session_invariant (fst (AuthService_refreshToken e s))"
  using assms
  by (auto simp: AuthService_refreshToken_def AuthService_logout_def session_invariant_def
      truthy_str_def split: sum.splits option.splits if_splits)

lemma logout_invariant:
  "session_invariant (AuthService_logout s)" "session_invariant (AlertsComponent_logout s)"
  by (simp_all add: AuthService_logout_def AlertsComponent_logout_def session_invariant_def)

section \<open>Properties of the normalizers\<close>

lemma truthy_str_simps:
  "truthy_str None = False" "truthy_str (Some s) = (s \<noteq> [])"
  by (simp_all add: truthy_str_def)


lemma num_or_simps:
  "num_or None d = d" "num_or (Some 0) d = d" "x \<noteq> 0 \<Longrightarrow> num_or (Some x) d = x"
  by (simp_all add: num_or_def)

lemma field_Some: "field f (Some r) = f r" and field_None: "field f None = None"
  by (simp_all add: field_def)

lemma formatRecommendation_null:
  "AlertsComponent_formatRecommendation now None =
     empty_object\<lparr>recommended_action := Some ''Monitor anomaly and adjust farming practices'',
       explanation_text := Some ''Temperature/moisture imbalance detected'',
       confidence := Some 0.75, timestamp := Some now\<rparr>"
  by (simp add: AlertsComponent_formatRecommendation_def field_None truthy_str_simps)

text \<open>
  C4. The canonical action is the first of \<^verbatim>\<open>recommended_action\<close>,
  \<^verbatim>\<open>recommendation\<close>, \<^verbatim>\<open>action\<close> that holds a non-empty string (an absent, null or
  empty field does not match and the next one is tried), else the fixed default text; a
  payload without a confidence field gets the matched branch's default 0.8, 0.7, 0.75,
  0.75. So a non-empty \<^verbatim>\<open>recommended_action\<close> wins whatever \<^verbatim>\<open>recommendation\<close> holds,
  and \<^verbatim>\<open>{recommendation: "x"}\<close> yields confidence 0.7.
\<close>

theorem formatRecommendation_precedence:
  "(recommended_action p = Some a \<and> a \<noteq> [] \<longrightarrow>
      recommended_action (AlertsComponent_formatRecommendation now (Some p)) = Some a
      \<and> confidence (AlertsComponent_formatRecommendation now (Some (p\<lparr>confidence := None\<rparr>))) = Some 0.8)
   \<and> (\<not> truthy_str (recommended_action p) \<and> recommendation p = Some b \<and> b \<noteq> [] \<longrightarrow>
      recommended_action (AlertsComponent_formatRecommendation now (Some p)) = Some b
      \<and> confidence (AlertsComponent_formatRecommendation now (Some (p\<lparr>confidence := None\<rparr>))) = Some 0.7)
   \<and> (\<not> truthy_str (recommended_action p) \<and> \<not> truthy_str (recommendation p)
        \<and> action p = Some c \<and> c \<noteq> [] \<longrightarrow>
      recommended_action (AlertsComponent_formatRecommendation now (Some p)) = Some c
      \<and> confidence (AlertsComponent_formatRecommendation now (Some (p\<lparr>confidence := None\<rparr>))) = Some 0.75)
   \<and> (\<not> truthy_str (recommended_action p) \<and> \<not> truthy_str (recommendation p)
        \<and> \<not> truthy_str (action p) \<longrightarrow>
      recommended_action (AlertsComponent_formatRecommendation now (Some p))
        = Some ''Monitor anomaly and adjust farming practices''
      \<and> confidence (AlertsComponent_formatRecommendation now (Some p)) = Some 0.75)
   \<and> confidence (AlertsComponent_formatRecommendation now (Some (empty_object\<lparr>recommendation := Some ''x''\<rparr>)))
        = Some 0.7"
  by (simp add: AlertsComponent_formatRecommendation_def field_Some truthy_str_simps num_or_simps
      empty_object_def)

theorem formatRecommendation_precedence_witness:
  "recommended_action payload_both = Some ''Irrigate'' \<and> recommendation payload_both = Some ''Wait''
   \<and> recommended_action (AlertsComponent_formatRecommendation demo_now (Some payload_both)) = Some ''Irrigate''
   \<and> confidence (AlertsComponent_formatRecommendation demo_now (Some (payload_both\<lparr>confidence := None\<rparr>))) = Some 0.8
   \<and> recommended_action (AlertsComponent_formatRecommendation demo_now (Some payload_recommendation)) = Some ''x''
   \<and> confidence (AlertsComponent_formatRecommendation demo_now (Some (payload_recommendation\<lparr>confidence := None\<rparr>)))
       = Some 0.7
   \<and> recommended_action (AlertsComponent_formatRecommendation demo_now (Some payload_action)) = Some ''Ventilate''
   \<and> confidence (AlertsComponent_formatRecommendation demo_now (Some (payload_action\<lparr>confidence := None\<rparr>)))
       = Some 0.75
   \<and> recommended_action (AlertsComponent_formatRecommendation demo_now (Some empty_object))
       = Some ''Monitor anomaly and adjust farming practices''
   \<and> confidence (AlertsComponent_formatRecommendation demo_now (Some empty_object)) = Some 0.75"
proof -
  have h1: "recommended_action payload_both = Some ''Irrigate'' \<and> ''Irrigate'' \<noteq> []"
    and h1': "recommendation payload_both = Some ''Wait''"
    by (simp_all add: payload_both_def empty_object_def)
  have h2: "\<not> truthy_str (recommended_action payload_recommendation)
      \<and> recommendation payload_recommendation = Some ''x'' \<and> ''x'' \<noteq> []"
    by (simp add: payload_recommendation_def empty_object_def truthy_str_simps)
  have h3: "\<not> truthy_str (recommended_action payload_action) \<and> \<not> truthy_str (recommendation payload_action)
      \<and> action payload_action = Some ''Ventilate'' \<and> ''Ventilate'' \<noteq> []"
    by (simp add: payload_action_def empty_object_def truthy_str_simps)
  have h4: "\<not> truthy_str (recommended_action empty_object) \<and> \<not> truthy_str (recommendation empty_object)
      \<and> \<not> truthy_str (action empty_object)"
    by (simp add: empty_object_def truthy_str_simps)
  note w1 = formatRecommendation_precedence
    [of payload_both "''Irrigate''" demo_now, THEN conjunct1, THEN mp, OF h1]
  note w2 = formatRecommendation_precedence
    [of payload_recommendation _ demo_now "''x''", THEN conjunct2, THEN conjunct1, THEN mp, OF h2]
  note w3 = formatRecommendation_precedence
    [of payload_action _ demo_now _ "''Ventilate''", THEN conjunct2, THEN conjunct2, THEN conjunct1,
      THEN mp, OF h3]
  note w4 = formatRecommendation_precedence
    [of empty_object _ demo_now, THEN conjunct2, THEN conjunct2, THEN conjunct2, THEN conjunct1,
      THEN mp, OF h4]
  from h1 h1' w1 w2 w3 w4 show ?thesis by simp
qed

text \<open>
  Being set is not enough for a field to win: an empty \<^verbatim>\<open>recommended_action\<close> is
  skipped and the value of \<^verbatim>\<open>recommendation\<close> is taken.
\<close>

theorem empty_recommended_action_skipped:
  "recommended_action payload_empty_first = Some []
   \<and> recommendation payload_empty_first = Some ''Wait''
   \<and> recommended_action (AlertsComponent_formatRecommendation demo_now (Some payload_empty_first)) = Some ''Wait''
   \<and> recommended_action (AlertsComponent_formatRecommendation demo_now (Some payload_empty_first))
       \<noteq> recommended_action payload_empty_first"
  by (simp add: AlertsComponent_formatRecommendation_def field_Some truthy_str_simps
      payload_empty_first_def empty_object_def)




section \<open>Properties of the fallback generators\<close>

lemma String_includes_sublist: "String_includes s sub \<longleftrightarrow> sublist sub s"
  by (induction s) (simp_all add: sublist_Cons_right)

lemma String_includes_iff:
  "String_includes s sub \<longleftrightarrow> (\<exists>before after. s = before @ sub @ after)"
  by (simp add: String_includes_sublist sublist_def)

lemma find_first_match:
  assumes "i < length xs" and "P (xs ! i)" and "\<forall>j<i. \<not> P (xs ! j)"
  shows "List.find P xs = Some (xs ! i)"
  using assms by (auto simp: find_Some_iff)

lemma find_no_match:
  assumes "\<forall>x\<in>set xs. \<not> P x"
  shows "List.find P xs = None"
  using assms by (simp add: find_None_iff)

lemma low_soil_moisture_rule:
  "List.find fst (mockRecommendations (toLowerCase ''low_soil_moisture''))
     = Some (True, table_entry ''Increase irrigation by 20-30% for the next 48 hours''
         ''Soil moisture below optimal range. Plants showing early signs of water stress.'' 0.85)"
  by (simp add: mockRecommendations_def toLowerCase_def lower_char_def)

lemma sensor_fault_no_rule:
  "\<forall>r\<in>set (mockRecommendations (lowered_type (demo_anomaly ''sensor_fault'' sev))). \<not> fst r"
  by (simp add: mockRecommendations_def lowered_type_def demo_anomaly_def toLowerCase_def lower_char_def)

lemma toLowerCase_example: "toLowerCase ''HIGH_Temperature'' = ''high_temperature''"
  by code_simp

lemma high_temperature_rules:
  "map fst (mockRecommendations (lowered_type (demo_anomaly ''HIGH_Temperature'' sev)))
     = [False, False, True, False, False]"
  by (simp add: mockRecommendations_def lowered_type_def demo_anomaly_def toLowerCase_example)

text \<open>
  What the generator does where the lookup works as meant: type
  \<^verbatim>\<open>low_soil_moisture\<close> yields the fixed irrigation action with confidence 0.85 for
  every severity; the first rule of the table whose condition holds decides; when no
  rule matches, \<^verbatim>\<open>high\<close>, \<^verbatim>\<open>medium\<close> and \<^verbatim>\<open>low\<close> select their entries of the
  severity table, and the medium entry is used for an absent or empty severity and for
  every other severity that is not the name of a member inherited from
  \<^verbatim>\<open>Object.prototype\<close>.
\<close>

theorem getMockRecommendation_rules:
  "(anomaly_type a = Some ''low_soil_moisture'' \<longrightarrow>
      recommended_action (AlertsComponent_getMockRecommendation now a)
        = Some ''Increase irrigation by 20-30% for the next 48 hours''
      \<and> confidence (AlertsComponent_getMockRecommendation now a) = Some 0.85)
   \<and> (i < length (mockRecommendations (lowered_type a))
        \<and> fst (mockRecommendations (lowered_type a) ! i)
        \<and> (\<forall>j<i. \<not> fst (mockRecommendations (lowered_type a) ! j)) \<longrightarrow>
      AlertsComponent_getMockRecommendation now a
        = mock_result now (snd (mockRecommendations (lowered_type a) ! i)))
   \<and> ((\<forall>r\<in>set (mockRecommendations (lowered_type a)). \<not> fst r) \<longrightarrow>
        (severity a = Some ''high'' \<longrightarrow>
           AlertsComponent_getMockRecommendation now a = mock_result now default_high)
      \<and> (severity a = Some ''medium'' \<longrightarrow>
           AlertsComponent_getMockRecommendation now a = mock_result now default_medium)
      \<and> (severity a = Some ''low'' \<longrightarrow>
           AlertsComponent_getMockRecommendation now a = mock_result now default_low)
      \<and> (\<not> truthy_str (severity a) \<longrightarrow>
           AlertsComponent_getMockRecommendation now a = mock_result now default_medium)
      \<and> (severity a = Some k \<and> k \<notin> {''high'', ''medium'', ''low''} \<and> k \<notin> set Object_prototype_keys \<longrightarrow>
           AlertsComponent_getMockRecommendation now a = mock_result now default_medium))"
proof -
  let ?G = "AlertsComponent_getMockRecommendation now a"
  let ?rules = "mockRecommendations (lowered_type a)"
  have first: "recommended_action ?G = Some ''Increase irrigation by 20-30% for the next 48 hours''
      \<and> confidence ?G = Some 0.85" if "anomaly_type a = Some ''low_soil_moisture''"
    using that low_soil_moisture_rule
    by (simp add: AlertsComponent_getMockRecommendation_def lowered_type_def mock_result_def
        table_entry_def empty_object_def)
  have wins: "?G = mock_result now (snd (?rules ! i))"
    if "i < length ?rules" "fst (?rules ! i)" "\<forall>j<i. \<not> fst (?rules ! j)"
    using find_first_match [OF that] by (simp add: AlertsComponent_getMockRecommendation_def)
  have none: "?G = mock_result now
        (case defaultActions (str_or (severity a) ''medium'') of Some d \<Rightarrow> d | None \<Rightarrow> default_medium)"
    if "\<forall>r\<in>set ?rules. \<not> fst r"
    using find_no_match [OF that] by (simp add: AlertsComponent_getMockRecommendation_def)
  have sev: "(severity a = Some ''high'' \<longrightarrow> ?G = mock_result now default_high)
      \<and> (severity a = Some ''medium'' \<longrightarrow> ?G = mock_result now default_medium)
      \<and> (severity a = Some ''low'' \<longrightarrow> ?G = mock_result now default_low)
      \<and> (\<not> truthy_str (severity a) \<longrightarrow> ?G = mock_result now default_medium)
      \<and> (severity a = Some k \<and> k \<notin> {''high'', ''medium'', ''low''} \<and> k \<notin> set Object_prototype_keys \<longrightarrow>
           ?G = mock_result now default_medium)"
    if "\<forall>r\<in>set ?rules. \<not> fst r"
    unfolding none [OF that]
    by (auto simp: str_or_def truthy_str_def defaultActions_def split: option.splits)
  from first wins sev show ?thesis by blast
qed

theorem getMockRecommendation_rules_witness:
  "recommended_action (AlertsComponent_getMockRecommendation demo_now (demo_anomaly ''low_soil_moisture'' (Some ''low'')))
     = Some ''Increase irrigation by 20-30% for the next 48 hours''
   \<and> confidence (AlertsComponent_getMockRecommendation demo_now (demo_anomaly ''low_soil_moisture'' (Some ''low'')))
     = Some 0.85
   \<and> map fst (mockRecommendations (lowered_type (demo_anomaly ''HIGH_Temperature'' None)))
     = [False, False, True, False, False]
   \<and> AlertsComponent_getMockRecommendation demo_now (demo_anomaly ''HIGH_Temperature'' None)
     = mock_result demo_now
         (snd (mockRecommendations (lowered_type (demo_anomaly ''HIGH_Temperature'' None)) ! 2))
   \<and> List.find fst (mockRecommendations (lowered_type (demo_anomaly ''sensor_fault'' None))) = None
   \<and> AlertsComponent_getMockRecommendation demo_now (demo_anomaly ''sensor_fault'' (Some ''high''))
     = mock_result demo_now default_high
   \<and> AlertsComponent_getMockRecommendation demo_now (demo_anomaly ''sensor_fault'' (Some ''medium''))
     = mock_result demo_now default_medium
   \<and> AlertsComponent_getMockRecommendation demo_now (demo_anomaly ''sensor_fault'' (Some ''low''))
     = mock_result demo_now default_low
   \<and> AlertsComponent_getMockRecommendation demo_now (demo_anomaly ''sensor_fault'' None)
     = mock_result demo_now default_medium
   \<and> AlertsComponent_getMockRecommendation demo_now (demo_anomaly ''sensor_fault'' (Some ''critical''))
     = mock_result demo_now default_medium"
proof -
  have t1: "anomaly_type (demo_anomaly ''low_soil_moisture'' (Some ''low'')) = Some ''low_soil_moisture''"
    by (simp add: demo_anomaly_def)
  note w1 = getMockRecommendation_rules
    [of "demo_anomaly ''low_soil_moisture'' (Some ''low'')" demo_now, THEN conjunct1, THEN mp, OF t1]
  have m: "map fst (mockRecommendations (lowered_type (demo_anomaly ''HIGH_Temperature'' None)))
      = [False, False, True, False, False]"
    by (rule high_temperature_rules)
  have len: "length (mockRecommendations (lowered_type (demo_anomaly ''HIGH_Temperature'' None))) = 5"
    using arg_cong [OF m, of length] by simp
  have nth: "fst (mockRecommendations (lowered_type (demo_anomaly ''HIGH_Temperature'' None)) ! j)
      = [False, False, True, False, False] ! j" if "j < 5" for j
    using that nth_map [of j "mockRecommendations (lowered_type (demo_anomaly ''HIGH_Temperature'' None))" fst]
    by (simp add: len m)
  have t2: "2 < length (mockRecommendations (lowered_type (demo_anomaly ''HIGH_Temperature'' None)))
      \<and> fst (mockRecommendations (lowered_type (demo_anomaly ''HIGH_Temperature'' None)) ! 2)
      \<and> (\<forall>j<2. \<not> fst (mockRecommendations (lowered_type (demo_anomaly ''HIGH_Temperature'' None)) ! j))"
  proof (intro conjI allI impI)
    show "2 < length (mockRecommendations (lowered_type (demo_anomaly ''HIGH_Temperature'' None)))"
      by (simp add: len)
    show "fst (mockRecommendations (lowered_type (demo_anomaly ''HIGH_Temperature'' None)) ! 2)"
      by (simp add: nth)
    fix j :: nat
    assume "j < 2"
    then have "j = 0 \<or> j = 1" by arith
    then show "\<not> fst (mockRecommendations (lowered_type (demo_anomaly ''HIGH_Temperature'' None)) ! j)"
      by (auto simp: nth)
  qed
  note w2 = getMockRecommendation_rules
    [of "demo_anomaly ''HIGH_Temperature'' None" demo_now 2, THEN conjunct2, THEN conjunct1, THEN mp, OF t2]
  have none: "List.find fst (mockRecommendations (lowered_type (demo_anomaly ''sensor_fault'' None))) = None"
    by (rule find_no_match [OF sensor_fault_no_rule])
  have s1: "severity (demo_anomaly ''sensor_fault'' (Some ''high'')) = Some ''high''"
    and s2: "severity (demo_anomaly ''sensor_fault'' (Some ''medium'')) = Some ''medium''"
    and s3: "severity (demo_anomaly ''sensor_fault'' (Some ''low'')) = Some ''low''"
    and s4: "\<not> truthy_str (severity (demo_anomaly ''sensor_fault'' None))"
    and s5: "severity (demo_anomaly ''sensor_fault'' (Some ''critical'')) = Some ''critical''
        \<and> ''critical'' \<notin> {''high'', ''medium'', ''low''} \<and> ''critical'' \<notin> set Object_prototype_keys"
    by (simp_all add: demo_anomaly_def truthy_str_def Object_prototype_keys_def)
  note c1 = getMockRecommendation_rules
    [of "demo_anomaly ''sensor_fault'' (Some ''high'')" demo_now, THEN conjunct2, THEN conjunct2, THEN mp,
      OF sensor_fault_no_rule, THEN conjunct1, THEN mp, OF s1]
  note c2 = getMockRecommendation_rules
    [of "demo_anomaly ''sensor_fault'' (Some ''medium'')" demo_now, THEN conjunct2, THEN conjunct2, THEN mp,
      OF sensor_fault_no_rule, THEN conjunct2, THEN conjunct1, THEN mp, OF s2]
  note c3 = getMockRecommendation_rules
    [of "demo_anomaly ''sensor_fault'' (Some ''low'')" demo_now, THEN conjunct2, THEN conjunct2, THEN mp,
      OF sensor_fault_no_rule, THEN conjunct2, THEN conjunct2, THEN conjunct1, THEN mp, OF s3]
  note c4 = getMockRecommendation_rules
    [of "demo_anomaly ''sensor_fault'' None" demo_now, THEN conjunct2, THEN conjunct2, THEN mp,
      OF sensor_fault_no_rule, THEN conjunct2, THEN conjunct2, THEN conjunct2, THEN conjunct1, THEN mp, OF s4]
  note c5 = getMockRecommendation_rules
    [of "demo_anomaly ''sensor_fault'' (Some ''critical'')" demo_now _ "''critical''",
      THEN conjunct2, THEN conjunct2, THEN mp,
      OF sensor_fault_no_rule, THEN conjunct2, THEN conjunct2, THEN conjunct2, THEN conjunct2, THEN mp, OF s5]
  from w1 m w2 none c1 c2 c3 c4 c5 show ?thesis by simp
qed

text \<open>
  The first rule covers every type that contains both words, in any letter case of the
  ASCII letters, and the order of the table decides between rules that both match.
\<close>

lemma moisture_low_first:
  assumes "String_includes (lowered_type a) ''moisture''" and "String_includes (lowered_type a) ''low''"
  shows "recommended_action (AlertsComponent_getMockRecommendation now a)
      = Some ''Increase irrigation by 20-30% for the next 48 hours''
    \<and> confidence (AlertsComponent_getMockRecommendation now a) = Some 0.85"
  using assms
  by (simp add: AlertsComponent_getMockRecommendation_def mockRecommendations_def mock_result_def
      table_entry_def empty_object_def)

lemma rule_order_decides:
  "map fst (mockRecommendations (lowered_type (demo_anomaly ''Moisture_High_then_Low'' sev)))
     = [True, True, False, False, False]"
  "recommended_action (AlertsComponent_getMockRecommendation now (demo_anomaly ''Moisture_High_then_Low'' sev))
     = Some ''Increase irrigation by 20-30% for the next 48 hours''"
proof -
  have low: "toLowerCase ''Moisture_High_then_Low'' = ''moisture_high_then_low''"
    by code_simp
  show "map fst (mockRecommendations (lowered_type (demo_anomaly ''Moisture_High_then_Low'' sev)))
     = [True, True, False, False, False]"
    by (simp add: mockRecommendations_def lowered_type_def demo_anomaly_def low)
  show "recommended_action (AlertsComponent_getMockRecommendation now (demo_anomaly ''Moisture_High_then_Low'' sev))
     = Some ''Increase irrigation by 20-30% for the next 48 hours''"
    by (rule moisture_low_first [THEN conjunct1])
      (simp_all add: lowered_type_def demo_anomaly_def low)
qed

text \<open>
  C6. When no rule matches, an unknown severity is meant to get the medium entry of the
  severity table (\<^verbatim>\<open>defaultActions[severity] || defaultActions.medium\<close>). The code
  misses that for a severity that names an inherited member: for type
  \<^verbatim>\<open>sensor_fault\<close> and severity \<^verbatim>\<open>constructor\<close> no rule matches, the lookup finds the
  member, and the result has no action and differs from the medium entry's.
\<close>

theorem inherited_severity_key:
  "List.find fst (mockRecommendations (lowered_type (demo_anomaly ''sensor_fault'' (Some ''constructor'')))) = None
   \<and> recommended_action
       (AlertsComponent_getMockRecommendation demo_now (demo_anomaly ''sensor_fault'' (Some ''constructor'')))
     = None
   \<and> AlertsComponent_getMockRecommendation demo_now (demo_anomaly ''sensor_fault'' (Some ''constructor''))
     \<noteq> mock_result demo_now default_medium"
  by (simp add: AlertsComponent_getMockRecommendation_def lowered_type_def demo_anomaly_def
      mockRecommendations_def toLowerCase_def lower_char_def str_or_def defaultActions_def
      Object_prototype_keys_def mock_result_def empty_object_def default_medium_def table_entry_def)

section \<open>Properties of the views' failure paths\<close>

text \<open>
  C7. When a recommendation-generating call fails: the alerts view attaches the result
  of its deterministic fallback generator, whose action, explanation and confidence
  depend only on the anomaly's type and severity; the plot-details view attaches one of
  its four fixed entries, chosen by the random draw alone; the dashboard attaches
  nothing and shows an error message.
\<close>

theorem generateRecommendation_failure:
  "(\<not> loadingRecommendation a \<and> anomaly_id a \<notin> P \<longrightarrow>
      agent_recommendation (fst (AlertsComponent_generateRecommendation now (Inl err) a P))
        = Some (AlertsComponent_getMockRecommendation now a))
   \<and> (anomaly_type a = anomaly_type a' \<and> severity a = severity a' \<longrightarrow>
        recommended_action (AlertsComponent_getMockRecommendation now a)
          = recommended_action (AlertsComponent_getMockRecommendation now' a')
      \<and> explanation_text (AlertsComponent_getMockRecommendation now a)
          = explanation_text (AlertsComponent_getMockRecommendation now' a')
      \<and> confidence (AlertsComponent_getMockRecommendation now a)
          = confidence (AlertsComponent_getMockRecommendation now' a'))
   \<and> (selectedAnomaly v = Some sel \<and> \<not> loadingRecommendation sel \<and> 0 \<le> rnd \<and> rnd < 1 \<longrightarrow>
        nat \<lfloor>rnd * 4\<rfloor> < length plot_mockRecommendations
      \<and> PlotDetailsComponent_generateRecommendation rnd (Inl err) v
          = Inr (v\<lparr>selectedAnomaly := Some (sel
               \<lparr>agent_recommendation := Some (plot_mock_result (plot_mockRecommendations ! nat \<lfloor>rnd * 4\<rfloor>)),
                loadingRecommendation := False\<rparr>)\<rparr>))
   \<and> recentAnomalies (DashboardComponent_generateRecommendation (Inl err) anomalyId d) = recentAnomalies d
   \<and> alerts_shown (DashboardComponent_generateRecommendation (Inl err) anomalyId d)
       = alerts_shown d @ [''Could not generate recommendation. Please try again.'']"
proof -
  have alerts: "agent_recommendation (fst (AlertsComponent_generateRecommendation now (Inl err) a P))
        = Some (AlertsComponent_getMockRecommendation now a)"
    if "\<not> loadingRecommendation a" "anomaly_id a \<notin> P"
    using that by (simp add: AlertsComponent_generateRecommendation_def)
  have det: "recommended_action (AlertsComponent_getMockRecommendation now a)
          = recommended_action (AlertsComponent_getMockRecommendation now' a')
      \<and> explanation_text (AlertsComponent_getMockRecommendation now a)
          = explanation_text (AlertsComponent_getMockRecommendation now' a')
      \<and> confidence (AlertsComponent_getMockRecommendation now a)
          = confidence (AlertsComponent_getMockRecommendation now' a')"
    if "anomaly_type a = anomaly_type a'" "severity a = severity a'"
    using that
    by (simp add: AlertsComponent_getMockRecommendation_def lowered_type_def mock_result_def
        empty_object_def Let_def split: option.splits)
  have plot: "nat \<lfloor>rnd * 4\<rfloor> < length plot_mockRecommendations
      \<and> PlotDetailsComponent_generateRecommendation rnd (Inl err) v
          = Inr (v\<lparr>selectedAnomaly := Some (sel
               \<lparr>agent_recommendation := Some (plot_mock_result (plot_mockRecommendations ! nat \<lfloor>rnd * 4\<rfloor>)),
                loadingRecommendation := False\<rparr>)\<rparr>)"
    if "selectedAnomaly v = Some sel" "\<not> loadingRecommendation sel" "0 \<le> rnd" "rnd < 1"
  proof -
    from that have fl: "0 \<le> \<lfloor>rnd * 4\<rfloor>" "\<lfloor>rnd * 4\<rfloor> < 4"
      by (simp_all add: floor_less_iff)
    have len: "length plot_mockRecommendations = 4"
      by (simp add: plot_mockRecommendations_def)
    from fl have idx: "nat \<lfloor>rnd * 4\<rfloor> < 4" by linarith
    from that fl idx show ?thesis
      by (simp add: PlotDetailsComponent_generateRecommendation_def len Let_def)
  qed
  have dash: "recentAnomalies (DashboardComponent_generateRecommendation (Inl err) anomalyId d) = recentAnomalies d
   \<and> alerts_shown (DashboardComponent_generateRecommendation (Inl err) anomalyId d)
       = alerts_shown d @ [''Could not generate recommendation. Please try again.'']"
    by (simp add: DashboardComponent_generateRecommendation_def)
  from alerts det plot dash show ?thesis by blast
qed

theorem generateRecommendation_failure_witness:
  "\<not> loadingRecommendation (demo_anomaly ''low_soil_moisture'' (Some ''high''))
   \<and> anomaly_id (demo_anomaly ''low_soil_moisture'' (Some ''high'')) \<notin> {}
   \<and> agent_recommendation (fst (AlertsComponent_generateRecommendation demo_now (Inl (HttpError 500))
        (demo_anomaly ''low_soil_moisture'' (Some ''high'')) {}))
     = Some (AlertsComponent_getMockRecommendation demo_now (demo_anomaly ''low_soil_moisture'' (Some ''high'')))
   \<and> recommended_action
        (AlertsComponent_getMockRecommendation demo_now (demo_anomaly ''low_soil_moisture'' (Some ''high'')))
     = recommended_action
        (AlertsComponent_getMockRecommendation later_now
           ((demo_anomaly ''low_soil_moisture'' (Some ''high''))\<lparr>anomaly_id := 2\<rparr>))
   \<and> selectedAnomaly demo_plot_view = Some (demo_anomaly ''low_soil_moisture'' (Some ''high''))
   \<and> PlotDetailsComponent_generateRecommendation (1/2) (Inl (HttpError 500)) demo_plot_view
     = Inr (demo_plot_view\<lparr>selectedAnomaly := Some ((demo_anomaly ''low_soil_moisture'' (Some ''high''))
          \<lparr>agent_recommendation := Some (plot_mock_result (plot_mockRecommendations ! 2)),
           loadingRecommendation := False\<rparr>)\<rparr>)"
proof -
  let ?a = "demo_anomaly ''low_soil_moisture'' (Some ''high'')"
  have h1: "\<not> loadingRecommendation ?a \<and> anomaly_id ?a \<notin> {}"
    by (simp add: demo_anomaly_def)
  have h2: "anomaly_type ?a = anomaly_type (?a\<lparr>anomaly_id := 2\<rparr>)
      \<and> severity ?a = severity (?a\<lparr>anomaly_id := 2\<rparr>)"
    by simp
  have h3: "selectedAnomaly demo_plot_view = Some ?a \<and> \<not> loadingRecommendation ?a
      \<and> (0::real) \<le> 1/2 \<and> (1/2::real) < 1"
    by (simp add: demo_plot_view_def demo_anomaly_def)
  have fl: "nat \<lfloor>(1/2::real) * 4\<rfloor> = 2" by simp
  note w1 = generateRecommendation_failure
    [of ?a "{}" demo_now "HttpError 500", THEN conjunct1, THEN mp, OF h1]
  note w2 = generateRecommendation_failure
    [of ?a _ demo_now _ "?a\<lparr>anomaly_id := 2\<rparr>" later_now, THEN conjunct2, THEN conjunct1, THEN mp, OF h2]
  note w3 = generateRecommendation_failure
    [of _ _ _ "HttpError 500" _ _ demo_plot_view ?a "1/2", THEN conjunct2, THEN conjunct2, THEN conjunct1,
      THEN mp, OF h3]
  from h1 h3 w1 w2 w3 show ?thesis by (simp add: fl)
qed

text \<open>
  Outside the alerts view there is no deterministic fallback: a failed call on the
  dashboard attaches nothing and opens an error box, and two failed calls for the same
  anomaly on the plot-details view end differently when the draws differ.
\<close>

theorem failure_without_fallback:
  "map agent_recommendation
       (recentAnomalies (DashboardComponent_generateRecommendation (Inl (HttpError 500)) 1 demo_dashboard))
     = [None]
   \<and> alerts_shown (DashboardComponent_generateRecommendation (Inl (HttpError 500)) 1 demo_dashboard)
     = [''Could not generate recommendation. Please try again.'']
   \<and> PlotDetailsComponent_generateRecommendation 0 (Inl (HttpError 500)) demo_plot_view
     \<noteq> PlotDetailsComponent_generateRecommendation (1/2) (Inl (HttpError 500)) demo_plot_view"
  by (simp add: DashboardComponent_generateRecommendation_def demo_dashboard_def demo_anomaly_def
      PlotDetailsComponent_generateRecommendation_def demo_plot_view_def plot_mockRecommendations_def
      plot_mock_result_def table_entry_def empty_object_def)

section \<open>Properties of the countdown scheduler\<close>

lemma tick_funpow:
  "refreshCountdown ((tick ^^ n) (v\<lparr>refreshCountdown := 30\<rparr>)) = 30 - int (n mod 30)
   \<and> loadAnomalies_calls ((tick ^^ n) (v\<lparr>refreshCountdown := 30\<rparr>)) = loadAnomalies_calls v + n div 30"
proof (induction n)
  case 0
  show ?case by simp
next
  case (Suc n)
  then show ?case
    by (auto simp: tick_def decrement_def reload_at_zero_def AlertsComponent_loadAnomalies_def
        mod_Suc div_Suc)
qed

lemma countdown_trace_nth:
  "k \<le> n \<Longrightarrow> countdown_trace n v ! k = refreshCountdown ((tick ^^ k) v)"
proof (induction n arbitrary: v k)
  case 0
  then show ?case by simp
next
  case (Suc n)
  show ?case
  proof (cases k)
    case 0
    then show ?thesis by simp
  next
    case (Suc j)
    with Suc.prems have "j \<le> n" by simp
    from Suc.IH [OF this, of "tick v"] Suc show ?thesis
      by (simp add: funpow_swap1)
  qed
qed

text \<open>
  C8. Started at 30, after \<open>n\<close> ticks the countdown is \<open>30 - n mod 30\<close> and
  \<^verbatim>\<open>loadAnomalies\<close> has fired \<open>n div 30\<close> times, once per 30 ticks. Between ticks the
  value therefore cycles 30, 29, ..., 1, 30 and lies between 1 and 30. Zero occurs only
  inside the firing tick: the decremented value is \<open>29 - n mod 30\<close>, the reload fires
  at 0 and the countdown is reset to 30 before the tick ends. The value is never
  negative, neither between ticks nor inside one.
\<close>

theorem countdown_scheduler:
  "refreshCountdown ((tick ^^ n) (v\<lparr>refreshCountdown := 30\<rparr>)) = 30 - int (n mod 30)
   \<and> loadAnomalies_calls ((tick ^^ n) (v\<lparr>refreshCountdown := 30\<rparr>)) = loadAnomalies_calls v + n div 30
   \<and> 0 < refreshCountdown ((tick ^^ n) (v\<lparr>refreshCountdown := 30\<rparr>))
   \<and> refreshCountdown ((tick ^^ n) (v\<lparr>refreshCountdown := 30\<rparr>)) \<le> 30
   \<and> refreshCountdown (decrement ((tick ^^ n) (v\<lparr>refreshCountdown := 30\<rparr>))) = 29 - int (n mod 30)
   \<and> 0 \<le> refreshCountdown (decrement ((tick ^^ n) (v\<lparr>refreshCountdown := 30\<rparr>)))"
proof -
  have below: "n mod 30 \<le> 29" by simp
  from tick_funpow [of n v] below show ?thesis by (simp add: decrement_def)
qed

text \<open>
  The countdown never shows 0: over the first cycle on the view as constructed, the
  values a reader sees are 30, 29, down to 1, and then 30 again.
\<close>

theorem countdown_skips_zero:
  "countdown_trace 30 alerts_initial =
     [30, 29, 28, 27, 26, 25, 24, 23, 22, 21, 20, 19, 18, 17, 16, 15, 14, 13, 12, 11, 10,
      9, 8, 7, 6, 5, 4, 3, 2, 1, 30]
   \<and> 0 \<notin> set (countdown_trace 30 alerts_initial)
   \<and> loadAnomalies_calls ((tick ^^ 30) alerts_initial) = 1"
proof -
  have tr: "countdown_trace 30 alerts_initial =
     [30, 29, 28, 27, 26, 25, 24, 23, 22, 21, 20, 19, 18, 17, 16, 15, 14, 13, 12, 11, 10,
      9, 8, 7, 6, 5, 4, 3, 2, 1, 30]"
    by (simp add: numeral_eq_Suc tick_def decrement_def reload_at_zero_def
        AlertsComponent_loadAnomalies_def alerts_initial_def)
  have calls: "loadAnomalies_calls ((tick ^^ 30) alerts_initial) = 1"
    by (simp add: numeral_eq_Suc tick_def decrement_def reload_at_zero_def
        AlertsComponent_loadAnomalies_def alerts_initial_def)
  from tr calls show ?thesis by simp
qed

text \<open>The same bounds by induction over the reachable states, and the first cycle run on the view as constructed.\<close>

lemma reachable_bounds:
  "reachable v w \<Longrightarrow> 0 < refreshCountdown w \<and> refreshCountdown w \<le> 30"
  by (induction rule: reachable.induct)
    (auto simp: tick_def decrement_def reload_at_zero_def AlertsComponent_loadAnomalies_def)

lemma reachable_decrement:
  "reachable v w \<Longrightarrow> 0 \<le> refreshCountdown (decrement w)"
  using reachable_bounds [of v w] by (simp add: decrement_def)

lemma reachable_funpow: "reachable v ((tick ^^ n) (v\<lparr>refreshCountdown := 30\<rparr>))"
  by (induction n) (auto intro: reachable.intros)

lemma first_cycle:
  "(tick ^^ 29) alerts_initial = alerts_initial\<lparr>refreshCountdown := 1\<rparr>"
  "decrement ((tick ^^ 29) alerts_initial) = alerts_initial\<lparr>refreshCountdown := 0\<rparr>"
  "(tick ^^ 30) alerts_initial = alerts_initial\<lparr>loadAnomalies_calls := 1\<rparr>"
  by (simp_all add: numeral_eq_Suc tick_def decrement_def reload_at_zero_def
      AlertsComponent_loadAnomalies_def alerts_initial_def)

section \<open>Properties of the gateway client\<close>

lemma Authorization_header:
  "map_of (headers (ApiService_call c st)) ''Authorization''
     = Some (case st ''access_token'' of None \<Rightarrow> [] | Some t \<Rightarrow> if t = [] then [] else ''Bearer '' @ t)"
  by (cases c) (simp_all add: request_def ApiService_getHeaders_def)

text \<open>
  C10. Every authenticated request carries an \<^verbatim>\<open>Authorization\<close> header, computed from
  the storage passed at the call: its value is the empty string when no access token,
  or an empty one, is stored, and \<^verbatim>\<open>Bearer\<close>, a space and the token when a non-empty
  token is stored.
\<close>

theorem Authorization_always_sent:
  "(st ''access_token'' = None \<longrightarrow> map_of (headers (ApiService_call c st)) ''Authorization'' = Some [])
   \<and> (st ''access_token'' = Some [] \<longrightarrow> map_of (headers (ApiService_call c st)) ''Authorization'' = Some [])
   \<and> (st ''access_token'' = Some t \<and> t \<noteq> [] \<longrightarrow>
        map_of (headers (ApiService_call c st)) ''Authorization'' = Some (''Bearer '' @ t))"
  by (simp add: Authorization_header)

theorem Authorization_always_sent_witness:
  "map_of (headers (ApiService_call (GetPlotById 12) Map.empty)) ''Authorization'' = Some []
   \<and> map_of (headers (ApiService_call (GetPlotById 12) [''access_token'' \<mapsto> []])) ''Authorization'' = Some []
   \<and> map_of (headers (ApiService_call (GetPlotById 12) [''access_token'' \<mapsto> ''a1''])) ''Authorization''
     = Some ''Bearer a1''"
proof -
  have h1: "(Map.empty :: storage) ''access_token'' = None" by simp
  have h2: "[''access_token'' \<mapsto> []] ''access_token'' = Some []" by simp
  have h3: "[''access_token'' \<mapsto> ''a1''] ''access_token'' = Some ''a1'' \<and> ''a1'' \<noteq> []" by simp
  note w1 = Authorization_always_sent
    [of Map.empty "GetPlotById 12", THEN conjunct1, THEN mp, OF h1]
  note w2 = Authorization_always_sent
    [of "[''access_token'' \<mapsto> []]" "GetPlotById 12", THEN conjunct2, THEN conjunct1, THEN mp, OF h2]
  note w3 = Authorization_always_sent
    [of "[''access_token'' \<mapsto> ''a1'']" "GetPlotById 12" "''a1''", THEN conjunct2, THEN conjunct2,
      THEN mp, OF h3]
  from w1 w2 w3 show ?thesis by simp
qed

text \<open>
  A stored token that is empty counts as no token: the header is the empty string, not
  \<^verbatim>\<open>Bearer\<close> and a space.
\<close>

theorem empty_token_header:
  "[''access_token'' \<mapsto> []] ''access_token'' = Some []
   \<and> map_of (headers (ApiService_call GetAnomalies [''access_token'' \<mapsto> []])) ''Authorization'' = Some []
   \<and> map_of (headers (ApiService_call GetAnomalies [''access_token'' \<mapsto> []])) ''Authorization''
     \<noteq> Some (''Bearer '' @ [])"
  by (simp add: request_def ApiService_getHeaders_def)

lemma request_example:
  "ApiService_call (RegenerateRecommendation 12) [''access_token'' \<mapsto> ''a1''] =
     \<lparr>verb = POST, url = ''http://localhost:8000/api/anomalies/12/recommend/'', body = Force_regenerate,
      headers = [(''Content-Type'', ''application/json''), (''Authorization'', ''Bearer a1'')]\<rparr>"
  by code_simp

end
